theory Spec2Isabelle
  imports Main "HOL-Library.Word"
begin

unbundle bit_operations_syntax

section \<open>C enumerations and initialised tables of \<^verbatim>\<open>legion_types.h\<close>\<close>

text \<open>
  An \<^verbatim>\<open>enum\<close> whose enumerators carry no initialiser numbers them from 0 in the
  order of declaration. Such an enumeration is kept as the list of its identifiers, in
  the order of the header; the value of an enumerator is its position in that list.
  \<open>enum_pos\<close> counts the enumerators declared before the first occurrence of an
  identifier (it is the length of the list for an identifier that is not declared).
\<close>

fun enum_pos :: "string list \<Rightarrow> string \<Rightarrow> nat" where
  "enum_pos [] x = 0"
| "enum_pos (e # es) x = (if e = x then 0 else Suc (enum_pos es x))"

text \<open>
  A declaration \<^verbatim>\<open>const char *name[N] = { s0, ..., sk }\<close>: with more than \<open>N\<close>
  initialisers the declaration is ill-formed (\<open>None\<close>); otherwise the first elements
  point to the given strings and every remaining element is a null pointer (\<open>None\<close> as
  an element).
\<close>

definition array_init :: "nat \<Rightarrow> 'a list \<Rightarrow> 'a option list option" where
  "array_init n inits =
     (if n < length inits then None
      else Some (map Some inits @ replicate (n - length inits) None))"

text \<open>Reading \<^verbatim>\<open>name[i]\<close>: outside the array the read is undefined behaviour.\<close>

datatype 'a c_read = Out_of_bounds | Null_pointer | Points_to 'a

definition array_read :: "'a option list \<Rightarrow> nat \<Rightarrow> 'a c_read" where
  "array_read a i =
     (if i < length a then (case a ! i of None \<Rightarrow> Null_pointer | Some v \<Rightarrow> Points_to v)
      else Out_of_bounds)"

subsection \<open>Runtime task identifiers\<close>

text \<open>\<^verbatim>\<open>enum HLRTaskID\<close>, lines 223 to 278 of the header.\<close>

definition HLRTaskID :: "string list" where
  "HLRTaskID =
   [''HLR_SCHEDULER_ID'', ''HLR_POST_END_ID'', ''HLR_DEFERRED_MAPPING_TRIGGER_ID'',
    ''HLR_DEFERRED_RESOLUTION_TRIGGER_ID'', ''HLR_DEFERRED_EXECUTION_TRIGGER_ID'',
    ''HLR_DEFERRED_COMMIT_TRIGGER_ID'', ''HLR_DEFERRED_POST_MAPPED_ID'',
    ''HLR_DEFERRED_EXECUTE_ID'', ''HLR_DEFERRED_COMPLETE_ID'', ''HLR_DEFERRED_COMMIT_ID'',
    ''HLR_RECLAIM_LOCAL_FIELD_ID'', ''HLR_DEFERRED_COLLECT_ID'',
    ''HLR_TRIGGER_DEPENDENCE_ID'', ''HLR_TRIGGER_OP_ID'', ''HLR_TRIGGER_TASK_ID'',
    ''HLR_DEFERRED_RECYCLE_ID'', ''HLR_DEFERRED_SLICE_ID'', ''HLR_MUST_INDIV_ID'',
    ''HLR_MUST_INDEX_ID'', ''HLR_MUST_MAP_ID'', ''HLR_MUST_DIST_ID'',
    ''HLR_MUST_LAUNCH_ID'', ''HLR_DEFERRED_FUTURE_SET_ID'',
    ''HLR_DEFERRED_FUTURE_MAP_SET_ID'', ''HLR_RESOLVE_FUTURE_PRED_ID'',
    ''HLR_MPI_RANK_ID'', ''HLR_CONTRIBUTE_COLLECTIVE_ID'', ''HLR_STATE_ANALYSIS_ID'',
    ''HLR_MAPPER_TASK_ID'', ''HLR_DISJOINTNESS_TASK_ID'',
    ''HLR_PART_INDEPENDENCE_TASK_ID'', ''HLR_SPACE_INDEPENDENCE_TASK_ID'',
    ''HLR_PENDING_CHILD_TASK_ID'', ''HLR_DECREMENT_PENDING_TASK_ID'',
    ''HLR_SEND_VERSION_STATE_TASK_ID'', ''HLR_ADD_TO_DEP_QUEUE_TASK_ID'',
    ''HLR_WINDOW_WAIT_TASK_ID'', ''HLR_ISSUE_FRAME_TASK_ID'', ''HLR_CONTINUATION_TASK_ID'',
    ''HLR_MAPPER_CONTINUATION_TASK_ID'', ''HLR_TASK_IMPL_SEMANTIC_INFO_REQ_TASK_ID'',
    ''HLR_INDEX_SPACE_SEMANTIC_INFO_REQ_TASK_ID'',
    ''HLR_INDEX_PART_SEMANTIC_INFO_REQ_TASK_ID'',
    ''HLR_FIELD_SPACE_SEMANTIC_INFO_REQ_TASK_ID'', ''HLR_FIELD_SEMANTIC_INFO_REQ_TASK_ID'',
    ''HLR_REGION_SEMANTIC_INFO_REQ_TASK_ID'', ''HLR_PARTITION_SEMANTIC_INFO_REQ_TASK_ID'',
    ''HLR_SELECT_TUNABLE_TASK_ID'', ''HLR_DEFERRED_ENQUEUE_TASK_ID'', ''HLR_MESSAGE_ID'',
    ''HLR_SHUTDOWN_ATTEMPT_TASK_ID'', ''HLR_SHUTDOWN_NOTIFICATION_TASK_ID'',
    ''HLR_SHUTDOWN_RESPONSE_TASK_ID'',
    ''HLR_LAST_TASK_ID'']"

definition HLR_LAST_TASK_ID :: nat where
  "HLR_LAST_TASK_ID = enum_pos HLRTaskID ''HLR_LAST_TASK_ID''"

text \<open>
  The initialisers of the macro \<^verbatim>\<open>HLR_TASK_DESCRIPTIONS(name)\<close>, lines 282 to 337,
  and the array the macro declares, of size \<^verbatim>\<open>HLR_LAST_TASK_ID\<close>.
\<close>

definition HLR_TASK_DESCRIPTIONS_inits :: "string list" where
  "HLR_TASK_DESCRIPTIONS_inits =
   [''Scheduler'', ''Post-Task Execution'', ''Deferred Mapping Trigger'',
    ''Deferred Resolution Trigger'', ''Deferred Execution Trigger'',
    ''Deferred Commit Trigger'', ''Deferred Post Mapped'', ''Deferred Execute'',
    ''Deferred Complete'', ''Deferred Commit'', ''Reclaim Local Field'',
    ''Garbage Collection'', ''Logical Dependence Analysis'',
    ''Operation Physical Dependence Analysis'', ''Task Physical Dependence Analysis'',
    ''Deferred Recycle'', ''Deferred Slice'', ''Must Individual Task Dependence Analysis'',
    ''Must Index Task Dependence Analysis'', ''Must Task Physical Dependence Analysis'',
    ''Must Task Distribution'', ''Must Task Launch'', ''Deferred Future Set'',
    ''Deferred Future Map Set'', ''Resolve Future Predicate'', ''Update MPI Rank Info'',
    ''Contribute Collective'', ''State Analaysis'', ''Mapper Task'', ''Disjointness Test'',
    ''Partition Independence Test'', ''Index Space Independence Test'',
    ''Remove Pending Child'', ''Decrement Pending Task'', ''Send Version State'',
    ''Add to Dependence Queue'', ''Window Wait'', ''Issue Frame'', ''Legion Continuation'',
    ''Mapper Continuation'', ''Task Impl Semantic Request'',
    ''Index Space Semantic Request'', ''Index Partition Semantic Request'',
    ''Field Space Semantic Request'', ''Field Semantic Request'',
    ''Region Semantic Request'', ''Partition Semantic Request'', ''Select Tunable'',
    ''Deferred Task Enqueue'', ''Remote Message'', ''Shutdown Attempt'',
    ''Shutdown Notification'', ''Shutdown Response'']"

definition HLR_TASK_DESCRIPTIONS :: "string option list option" where
  "HLR_TASK_DESCRIPTIONS = array_init HLR_LAST_TASK_ID HLR_TASK_DESCRIPTIONS_inits"

text \<open>
  The identifier whose value is \<open>n\<close> in an enumeration numbered from 0; there is none
  from the length of the list on.
\<close>

definition enumerator :: "string list \<Rightarrow> nat \<Rightarrow> string option" where
  "enumerator es n = (if n < length es then Some (es ! n) else None)"

subsection \<open>Message kinds\<close>

text \<open>\<^verbatim>\<open>enum MessageKind\<close>, lines 442 to 541 of the header.\<close>

definition MessageKind :: "string list" where
  "MessageKind =
   [''TASK_MESSAGE'', ''STEAL_MESSAGE'', ''ADVERTISEMENT_MESSAGE'',
    ''SEND_INDEX_SPACE_NODE'', ''SEND_INDEX_SPACE_REQUEST'', ''SEND_INDEX_SPACE_RETURN'',
    ''SEND_INDEX_SPACE_CHILD_REQUEST'', ''SEND_INDEX_PARTITION_NODE'',
    ''SEND_INDEX_PARTITION_REQUEST'', ''SEND_INDEX_PARTITION_RETURN'',
    ''SEND_INDEX_PARTITION_CHILD_REQUEST'', ''SEND_FIELD_SPACE_NODE'',
    ''SEND_FIELD_SPACE_REQUEST'', ''SEND_FIELD_SPACE_RETURN'',
    ''SEND_FIELD_ALLOC_REQUEST'', ''SEND_FIELD_ALLOC_NOTIFICATION'',
    ''SEND_FIELD_SPACE_TOP_ALLOC'', ''SEND_FIELD_FREE'', ''SEND_TOP_LEVEL_REGION_REQUEST'',
    ''SEND_TOP_LEVEL_REGION_RETURN'', ''SEND_LOGICAL_REGION_NODE'',
    ''INDEX_SPACE_DESTRUCTION_MESSAGE'', ''INDEX_PARTITION_DESTRUCTION_MESSAGE'',
    ''FIELD_SPACE_DESTRUCTION_MESSAGE'', ''LOGICAL_REGION_DESTRUCTION_MESSAGE'',
    ''LOGICAL_PARTITION_DESTRUCTION_MESSAGE'', ''INDIVIDUAL_REMOTE_MAPPED'',
    ''INDIVIDUAL_REMOTE_COMPLETE'', ''INDIVIDUAL_REMOTE_COMMIT'', ''SLICE_REMOTE_MAPPED'',
    ''SLICE_REMOTE_COMPLETE'', ''SLICE_REMOTE_COMMIT'',
    ''DISTRIBUTED_REMOTE_REGISTRATION'', ''DISTRIBUTED_VALID_UPDATE'',
    ''DISTRIBUTED_GC_UPDATE'', ''DISTRIBUTED_RESOURCE_UPDATE'', ''DISTRIBUTED_CREATE_ADD'',
    ''DISTRIBUTED_CREATE_REMOVE'', ''SEND_ATOMIC_RESERVATION_REQUEST'',
    ''SEND_ATOMIC_RESERVATION_RESPONSE'', ''SEND_MATERIALIZED_VIEW'',
    ''SEND_MATERIALIZED_UPDATE'', ''SEND_COMPOSITE_VIEW'', ''SEND_FILL_VIEW'',
    ''SEND_REDUCTION_VIEW'', ''SEND_REDUCTION_UPDATE'', ''SEND_INSTANCE_MANAGER'',
    ''SEND_REDUCTION_MANAGER'', ''SEND_CREATE_TOP_VIEW_REQUEST'',
    ''SEND_CREATE_TOP_VIEW_RESPONSE'', ''SEND_SUBVIEW_DID_REQUEST'',
    ''SEND_SUBVIEW_DID_RESPONSE'', ''SEND_VIEW_REQUEST'', ''SEND_MANAGER_REQUEST'',
    ''SEND_FUTURE_RESULT'', ''SEND_FUTURE_SUBSCRIPTION'', ''SEND_MAPPER_MESSAGE'',
    ''SEND_MAPPER_BROADCAST'', ''SEND_TASK_IMPL_SEMANTIC_REQ'',
    ''SEND_INDEX_SPACE_SEMANTIC_REQ'', ''SEND_INDEX_PARTITION_SEMANTIC_REQ'',
    ''SEND_FIELD_SPACE_SEMANTIC_REQ'', ''SEND_FIELD_SEMANTIC_REQ'',
    ''SEND_LOGICAL_REGION_SEMANTIC_REQ'', ''SEND_LOGICAL_PARTITION_SEMANTIC_REQ'',
    ''SEND_TASK_IMPL_SEMANTIC_INFO'', ''SEND_INDEX_SPACE_SEMANTIC_INFO'',
    ''SEND_INDEX_PARTITION_SEMANTIC_INFO'', ''SEND_FIELD_SPACE_SEMANTIC_INFO'',
    ''SEND_FIELD_SEMANTIC_INFO'', ''SEND_LOGICAL_REGION_SEMANTIC_INFO'',
    ''SEND_LOGICAL_PARTITION_SEMANTIC_INFO'', ''SEND_REMOTE_CONTEXT_REQUEST'',
    ''SEND_REMOTE_CONTEXT_RESPONSE'', ''SEND_REMOTE_CONTEXT_FREE'',
    ''SEND_REMOTE_CONVERT_VIRTUAL'', ''SEND_VERSION_STATE_PATH'',
    ''SEND_VERSION_STATE_INIT'', ''SEND_VERSION_STATE_REQUEST'',
    ''SEND_VERSION_STATE_RESPONSE'', ''SEND_INSTANCE_REQUEST'', ''SEND_INSTANCE_RESPONSE'',
    ''SEND_GC_PRIORITY_UPDATE'', ''SEND_NEVER_GC_RESPONSE'', ''SEND_ACQUIRE_REQUEST'',
    ''SEND_ACQUIRE_RESPONSE'', ''SEND_BACK_LOGICAL_STATE'', ''SEND_VARIANT_REQUEST'',
    ''SEND_VARIANT_RESPONSE'', ''SEND_CONSTRAINT_REQUEST'', ''SEND_CONSTRAINT_RESPONSE'',
    ''SEND_CONSTRAINT_RELEASE'', ''SEND_CONSTRAINT_REMOVAL'',
    ''SEND_TOP_LEVEL_TASK_REQUEST'', ''SEND_TOP_LEVEL_TASK_COMPLETE'',
    ''SEND_SHUTDOWN_NOTIFICATION'', ''SEND_SHUTDOWN_RESPONSE'',
    ''LAST_SEND_KIND'']"

definition LAST_SEND_KIND :: nat where
  "LAST_SEND_KIND = enum_pos MessageKind ''LAST_SEND_KIND''"

text \<open>
  The initialisers of the macro \<^verbatim>\<open>HLR_MESSAGE_DESCRIPTIONS(name)\<close>, lines 543 to 642,
  and the array it declares, of size \<^verbatim>\<open>LAST_SEND_KIND\<close>.
\<close>

definition HLR_MESSAGE_DESCRIPTIONS_inits :: "string list" where
  "HLR_MESSAGE_DESCRIPTIONS_inits =
   [''Task Message'', ''Steal Message'', ''Advertisement Message'',
    ''Send Index Space Node'', ''Send Index Space Request'', ''Send Index Space Return'',
    ''Send Index Space Child Request'', ''Send Index Partition Node'',
    ''Send Index Partition Request'', ''Send Index Partition Return'',
    ''Send Index Partition Child Request'', ''Send Field Space Node'',
    ''Send Field Space Request'', ''Send Field Space Return'',
    ''Send Field Alloc Request'', ''Send Field Alloc Notification'',
    ''Send Field Space Top Alloc'', ''Send Field Free'', ''Send Top Level Region Request'',
    ''Send Top Level Region Return'', ''Send Logical Region Node'',
    ''Index Space Destruction'', ''Index Partition Destruction'',
    ''Field Space Destruction'', ''Logical Region Destruction'',
    ''Logical Partition Destruction'', ''Individual Remote Mapped'',
    ''Individual Remote Complete'', ''Individual Remote Commit'', ''Slice Remote Mapped'',
    ''Slice Remote Complete'', ''Slice Remote Commit'',
    ''Distributed Remote Registration'', ''Distributed Valid Update'',
    ''Distributed GC Update'', ''Distributed Resource Update'', ''Distributed Create Add'',
    ''Distributed Create Remove'', ''Send Atomic Reservation Request'',
    ''Send Atomic Reservation Response'', ''Send Materialized View'',
    ''Send Materialized Update'', ''Send Composite View'', ''Send Fill View'',
    ''Send Reduction View'', ''Send Reduction Update'', ''Send Instance Manager'',
    ''Send Reduction Manager'', ''Send Create Top View Request'',
    ''Send Create Top View Response'', ''Send Subview DID Request'',
    ''Send Subview DID Response'', ''Send View Request'', ''Send Manager Request'',
    ''Send Future Result'', ''Send Future Subscription'', ''Send Mapper Message'',
    ''Send Mapper Broadcast'', ''Send Task Impl Semantic Req'',
    ''Send Index Space Semantic Req'', ''Send Index Partition Semantic Req'',
    ''Send Field Space Semantic Req'', ''Send Field Semantic Req'',
    ''Send Logical Region Semantic Req'', ''Send Logical Partition Semantic Req'',
    ''Send Task Impl Semantic Info'', ''Send Index Space Semantic Info'',
    ''Send Index Partition Semantic Info'', ''Send Field Space Semantic Info'',
    ''Send Field Semantic Info'', ''Send Logical Region Semantic Info'',
    ''Send Logical Partition Semantic Info'', ''Send Remote Context Request'',
    ''Send Remote Context Response'', ''Send Remote Context Free'',
    ''Send Remote Convert Virtual Instances'', ''Send Version State Path'',
    ''Send Version State Init'', ''Send Version State Request'',
    ''Send Version State Response'', ''Send Instance Request'', ''Send Instance Response'',
    ''Send GC Priority Update'', ''Send Never GC Response'', ''Send Acquire Request'',
    ''Send Acquire Response'', ''Send Back Logical State'', ''Send Task Variant Request'',
    ''Send Task Variant Response'', ''Send Constraint Request'',
    ''Send Constraint Response'', ''Send Constraint Release'', ''Send Constraint Removal'',
    ''Top Level Task Request'', ''Top Level Task Complete'',
    ''Send Shutdown Notification'', ''Send Shutdown Response'']"

definition HLR_MESSAGE_DESCRIPTIONS :: "string option list option" where
  "HLR_MESSAGE_DESCRIPTIONS = array_init LAST_SEND_KIND HLR_MESSAGE_DESCRIPTIONS_inits"

section \<open>The conversions of \<^verbatim>\<open>legion_c_util.h\<close>\<close>

text \<open>
  \<^verbatim>\<open>CObjectWrapper\<close> converts between the C++ handles of the runtime and the structs
  of the C interface. The overloaded \<^verbatim>\<open>wrap\<close> and \<^verbatim>\<open>unwrap\<close> are told apart by a
  suffix naming the C++ type. The identifier types (\<^verbatim>\<open>RegionTreeID\<close>,
  \<^verbatim>\<open>FieldSpaceID\<close>, the \<^verbatim>\<open>id\<close> of an index space, \<^verbatim>\<open>IndexPartition\<close>) are declared in
  headers that are not among the sources; they are type parameters here, the same on
  the C++ side and on the C side, and the members are named as the code reads them.
  The constructors of \<^verbatim>\<open>FieldSpace\<close>, \<^verbatim>\<open>LogicalRegion\<close> and \<^verbatim>\<open>LogicalPartition\<close>
  (\<^verbatim>\<open>legion.h\<close>, also not among the sources) are taken to store their arguments in the
  members the code reads back, and a handle to have no member but those.
\<close>

subsection \<open>Opaque handles: \<^verbatim>\<open>NEW_OPAQUE_WRAPPER(T_, T)\<close>, lines 33 to 63\<close>

text \<open>
  \<open>T\<close> is a pointer to an object of the runtime and \<open>T_\<close> a struct whose only member
  is \<^verbatim>\<open>void *impl\<close>. A pointer is its address; the type parameter is the type of the
  object pointed to. \<^verbatim>\<open>static_cast\<close> between an object pointer and \<^verbatim>\<open>void *\<close> keeps
  the address.
\<close>

datatype 'a pointer = Pointer (address: nat)

datatype void_pointer = Void_pointer (void_address: nat)

datatype 'a opaque = Opaque (impl: void_pointer)

definition static_cast_void :: "'a pointer \<Rightarrow> void_pointer" where
  "static_cast_void t = Void_pointer (address t)"

definition static_cast_T :: "void_pointer \<Rightarrow> 'a pointer" where
  "static_cast_T p = Pointer (void_address p)"

definition wrap :: "'a pointer \<Rightarrow> 'a opaque" where
  "wrap t = Opaque (static_cast_void t)"

definition unwrap :: "'a opaque \<Rightarrow> 'a pointer" where
  "unwrap t_c = static_cast_T (impl t_c)"

text \<open>
  \<^verbatim>\<open>wrap_const\<close> and \<^verbatim>\<open>unwrap_const\<close> are the same conversions on pointers to
  constant objects; \<^verbatim>\<open>const_cast\<close> keeps the address as well.
\<close>

definition const_cast_void :: "void_pointer \<Rightarrow> void_pointer" where
  "const_cast_void p = Void_pointer (void_address p)"

definition wrap_const :: "'a pointer \<Rightarrow> 'a opaque" where
  "wrap_const t = Opaque (const_cast_void (static_cast_void t))"

definition unwrap_const :: "'a opaque \<Rightarrow> 'a pointer" where
  "unwrap_const t_c = static_cast_T (impl t_c)"

subsection \<open>Index spaces and field spaces, lines 81 to 127\<close>

record 'i IndexSpace =
  is_id :: 'i

record 'i legion_index_space_t =
  c_is_id :: 'i

definition wrap_IndexSpace :: "'i IndexSpace \<Rightarrow> 'i legion_index_space_t" where
  "wrap_IndexSpace is = \<lparr>c_is_id = is_id is\<rparr>"

definition unwrap_IndexSpace :: "'i legion_index_space_t \<Rightarrow> 'i IndexSpace" where
  "unwrap_IndexSpace is_c = \<lparr>is_id = c_is_id is_c\<rparr>"

record 'f FieldSpace =
  fs_id :: 'f

record 'f legion_field_space_t =
  c_fs_id :: 'f

definition wrap_FieldSpace :: "'f FieldSpace \<Rightarrow> 'f legion_field_space_t" where
  "wrap_FieldSpace fs = \<lparr>c_fs_id = fs_id fs\<rparr>"

definition unwrap_FieldSpace :: "'f legion_field_space_t \<Rightarrow> 'f FieldSpace" where
  "unwrap_FieldSpace fs_c = \<lparr>fs_id = c_fs_id fs_c\<rparr>"

subsection \<open>Logical regions and logical partitions, lines 129 to 165\<close>

record ('t, 'i, 'f) LogicalRegion =
  lr_tree_id :: 't
  lr_index_space :: "'i IndexSpace"
  lr_field_space :: "'f FieldSpace"

record ('t, 'i, 'f) legion_logical_region_t =
  c_lr_tree_id :: 't
  c_lr_index_space :: "'i legion_index_space_t"
  c_lr_field_space :: "'f legion_field_space_t"

definition wrap_LogicalRegion ::
    "('t, 'i, 'f) LogicalRegion \<Rightarrow> ('t, 'i, 'f) legion_logical_region_t" where
  "wrap_LogicalRegion r =
     \<lparr>c_lr_tree_id = lr_tree_id r,
      c_lr_index_space = wrap_IndexSpace (lr_index_space r),
      c_lr_field_space = wrap_FieldSpace (lr_field_space r)\<rparr>"

definition unwrap_LogicalRegion ::
    "('t, 'i, 'f) legion_logical_region_t \<Rightarrow> ('t, 'i, 'f) LogicalRegion" where
  "unwrap_LogicalRegion r_c =
     \<lparr>lr_tree_id = c_lr_tree_id r_c,
      lr_index_space = unwrap_IndexSpace (c_lr_index_space r_c),
      lr_field_space = unwrap_FieldSpace (c_lr_field_space r_c)\<rparr>"

record ('t, 'p, 'f) LogicalPartition =
  lp_tree_id :: 't
  lp_index_partition :: 'p
  lp_field_space :: "'f FieldSpace"

record ('t, 'p, 'f) legion_logical_partition_t =
  c_lp_tree_id :: 't
  c_lp_index_partition :: 'p
  c_lp_field_space :: "'f legion_field_space_t"

definition wrap_LogicalPartition ::
    "('t, 'p, 'f) LogicalPartition \<Rightarrow> ('t, 'p, 'f) legion_logical_partition_t" where
  "wrap_LogicalPartition r =
     \<lparr>c_lp_tree_id = lp_tree_id r,
      c_lp_index_partition = lp_index_partition r,
      c_lp_field_space = wrap_FieldSpace (lp_field_space r)\<rparr>"

definition unwrap_LogicalPartition ::
    "('t, 'p, 'f) legion_logical_partition_t \<Rightarrow> ('t, 'p, 'f) LogicalPartition" where
  "unwrap_LogicalPartition r_c =
     \<lparr>lp_tree_id = c_lp_tree_id r_c,
      lp_index_partition = c_lp_index_partition r_c,
      lp_field_space = unwrap_FieldSpace (c_lp_field_space r_c)\<rparr>"

section \<open>The wire layout of identities, field masks and version records\<close>

text \<open>
  Modelled from the spec: \<^verbatim>\<open>Serializer\<close>, \<^verbatim>\<open>Deserializer\<close> and \<^verbatim>\<open>VersionState\<close> are
  only declared forward in \<^verbatim>\<open>legion_types.h\<close>. The spec gives every message a stable
  layout of tree, field and version identifiers as fixed-width integers, a field mask as
  a bit vector and a payload of variable length. A fixed-width value is written as its
  bytes, least significant first; the payload is written after its length. Reading
  fails (\<open>None\<close>) when the buffer is too short.
\<close>

type_synonym byte = "8 word"

definition width_bytes :: "'a::len word \<Rightarrow> nat" where
  "width_bytes w = (LENGTH('a) + 7) div 8"

definition put_word :: "'a::len word \<Rightarrow> byte list" where
  "put_word w = map (\<lambda>i. ucast (drop_bit (8 * i) w)) [0..<width_bytes w]"

definition word_of_bytes :: "byte list \<Rightarrow> 'a::len word" where
  "word_of_bytes bs = word_of_int (horner_sum uint (2 ^ 8) bs)"

definition get_word :: "byte list \<Rightarrow> ('a::len word \<times> byte list) option" where
  "get_word bs =
     (let n = width_bytes (0 :: 'a word)
      in if length bs < n then None else Some (word_of_bytes (take n bs), drop n bs))"

text \<open>
  A field mask is a bit vector of the capacity fixed at compile time (\<^verbatim>\<open>MAX_FIELDS\<close>,
  a configuration constant): a word of that many bits.
\<close>

type_synonym 'n FieldMask = "'n word"

record 'm version_state_wire =
  w_tree_id :: "32 word"
  w_index_space :: "64 word"
  w_field_space :: "32 word"
  w_version :: "64 word"
  w_mask :: 'm
  w_payload :: "byte list"

definition serialize_region :: "(32 word, 64 word, 32 word) LogicalRegion \<Rightarrow> byte list" where
  "serialize_region r =
     put_word (lr_tree_id r) @ put_word (is_id (lr_index_space r)) @
     put_word (fs_id (lr_field_space r))"

definition deserialize_region ::
    "byte list \<Rightarrow> ((32 word, 64 word, 32 word) LogicalRegion \<times> byte list) option" where
  "deserialize_region bs =
     (case get_word bs of None \<Rightarrow> None | Some (t, bs1) \<Rightarrow>
      (case get_word bs1 of None \<Rightarrow> None | Some (i, bs2) \<Rightarrow>
       (case get_word bs2 of None \<Rightarrow> None | Some (f, bs3) \<Rightarrow>
          Some (\<lparr>lr_tree_id = t, lr_index_space = \<lparr>is_id = i\<rparr>,
                 lr_field_space = \<lparr>fs_id = f\<rparr>\<rparr>, bs3))))"

definition serialize_version_state ::
    "('n::len) FieldMask version_state_wire \<Rightarrow> byte list option" where
  "serialize_version_state v =
     (if length (w_payload v) < 2 ^ 64
      then Some (put_word (w_tree_id v) @ put_word (w_index_space v) @
                 put_word (w_field_space v) @ put_word (w_version v) @
                 put_word (w_mask v) @
                 put_word (word_of_nat (length (w_payload v)) :: 64 word) @ w_payload v)
      else None)"

definition deserialize_version_state ::
    "byte list \<Rightarrow> (('n::len) FieldMask version_state_wire \<times> byte list) option" where
  "deserialize_version_state bs =
     (case get_word bs of None \<Rightarrow> None | Some (t, bs1) \<Rightarrow>
      (case get_word bs1 of None \<Rightarrow> None | Some (i, bs2) \<Rightarrow>
       (case get_word bs2 of None \<Rightarrow> None | Some (f, bs3) \<Rightarrow>
        (case get_word bs3 of None \<Rightarrow> None | Some (ver, bs4) \<Rightarrow>
         (case get_word bs4 of None \<Rightarrow> None | Some (m, bs5) \<Rightarrow>
          (case get_word bs5 of None \<Rightarrow> None | Some (n :: 64 word, bs6) \<Rightarrow>
             if length bs6 < unat n then None
             else Some (\<lparr>w_tree_id = t, w_index_space = i, w_field_space = f,
                          w_version = ver, w_mask = m, w_payload = take (unat n) bs6\<rparr>,
                        drop (unat n) bs6)))))))"

section \<open>The logical open state of a node\<close>

text \<open>
  \<^verbatim>\<open>enum OpenState\<close>, lines 198 to 204 of \<^verbatim>\<open>legion_types.h\<close>, with the value the
  header gives each enumerator.
\<close>

datatype OpenState =
    NOT_OPEN
  | OPEN_READ_ONLY
  | OPEN_READ_WRITE
  | OPEN_SINGLE_REDUCE
  | OPEN_MULTI_REDUCE

fun OpenState_value :: "OpenState \<Rightarrow> nat" where
  "OpenState_value NOT_OPEN = 0"
| "OpenState_value OPEN_READ_ONLY = 1"
| "OpenState_value OPEN_READ_WRITE = 2"
| "OpenState_value OPEN_SINGLE_REDUCE = 3"
| "OpenState_value OPEN_MULTI_REDUCE = 4"

text \<open>
  Modelled from the spec: the traversal that changes the open state (\<^verbatim>\<open>region_tree.h\<close>)
  is not among the sources. The spec gives the state machine of one field-mask slice of
  one tree node as a list of transitions; each is a rule below, and nothing else is a
  transition. The state of a slice is its open state and the reduction operator it is
  open for (0, which is no operator, outside the reduce states). A reduction opens a
  slice from any state, under one child or under several, unless the slice is open for
  another operator: that needs a close first, as every access does that has no rule.
\<close>

datatype access = Read | Write | Reduce nat

datatype slice_event = Access access | Close

inductive open_step :: "OpenState \<times> nat \<Rightarrow> slice_event \<Rightarrow> OpenState \<times> nat \<Rightarrow> bool" where
  first_reader: "open_step (NOT_OPEN, r) (Access Read) (OPEN_READ_ONLY, r)"
| more_readers: "open_step (OPEN_READ_ONLY, r) (Access Read) (OPEN_READ_ONLY, r)"
| writer_after_readers: "open_step (OPEN_READ_ONLY, r) (Access Write) (OPEN_READ_WRITE, r)"
| next_writer: "open_step (OPEN_READ_WRITE, r) (Access Write) (OPEN_READ_WRITE, r)"
| reducer:
    "redop \<noteq> 0 \<Longrightarrow>
     (s = OPEN_SINGLE_REDUCE \<or> s = OPEN_MULTI_REDUCE \<longrightarrow> r = redop) \<Longrightarrow>
     t = OPEN_SINGLE_REDUCE \<or> t = OPEN_MULTI_REDUCE \<Longrightarrow>
     open_step (s, r) (Access (Reduce redop)) (t, redop)"
| close: "open_step (s, r) Close (NOT_OPEN, 0)"

code_pred open_step .

section \<open>Properties of the enumerations and tables\<close>

lemma array_init_exact:
  "length inits = n \<Longrightarrow> array_init n inits = Some (map Some inits)"
  by (simp add: array_init_def)

lemma array_read_map_Some:
  "i < length inits \<Longrightarrow> array_read (map Some inits) i = Points_to (inits ! i)"
  by (simp add: array_read_def)

lemma HLR_LAST_TASK_ID_value: "HLR_LAST_TASK_ID = 53"
  by (simp add: HLR_LAST_TASK_ID_def HLRTaskID_def)

lemma length_HLR_TASK_DESCRIPTIONS_inits: "length HLR_TASK_DESCRIPTIONS_inits = 53"
  by (simp add: HLR_TASK_DESCRIPTIONS_inits_def)

lemma enum_pos_less: "x \<in> set (take n es) \<Longrightarrow> enum_pos es x < n"
proof (induction es arbitrary: n)
  case Nil
  then show ?case by simp
next
  case (Cons e es)
  then show ?case by (cases n) auto
qed

lemma length_HLRTaskID: "length HLRTaskID = 54"
  by (simp add: HLRTaskID_def)

text \<open>
  Claim C10. Every task identifier declared before \<^verbatim>\<open>HLR_LAST_TASK_ID\<close> has a value below
  it. The table declared by \<^verbatim>\<open>HLR_TASK_DESCRIPTIONS\<close> is well-formed, it has exactly
  \<^verbatim>\<open>HLR_LAST_TASK_ID\<close> initialisers and as many elements, and reading it at any task
  identifier below \<^verbatim>\<open>HLR_LAST_TASK_ID\<close> is in bounds and yields a non-null description,
  the initialiser written at that position.
\<close>

theorem HLR_TASK_DESCRIPTIONS_in_bounds:
  "(\<forall>x \<in> set (butlast HLRTaskID). enum_pos HLRTaskID x < HLR_LAST_TASK_ID) \<and>
   length HLR_TASK_DESCRIPTIONS_inits = HLR_LAST_TASK_ID \<and>
   (\<exists>tbl. HLR_TASK_DESCRIPTIONS = Some tbl \<and> length tbl = HLR_LAST_TASK_ID \<and>
      (\<forall>tid. tid < HLR_LAST_TASK_ID \<longrightarrow>
         array_read tbl tid = Points_to (HLR_TASK_DESCRIPTIONS_inits ! tid)))"
proof -
  have ids: "enum_pos HLRTaskID x < HLR_LAST_TASK_ID" if "x \<in> set (butlast HLRTaskID)" for x
  proof -
    from that have "x \<in> set (take 53 HLRTaskID)"
      by (simp add: butlast_conv_take length_HLRTaskID)
    then show ?thesis
      unfolding HLR_LAST_TASK_ID_value by (rule enum_pos_less)
  qed
  have len: "length HLR_TASK_DESCRIPTIONS_inits = HLR_LAST_TASK_ID"
    by (simp only: length_HLR_TASK_DESCRIPTIONS_inits HLR_LAST_TASK_ID_value)
  have tbl: "HLR_TASK_DESCRIPTIONS = Some (map Some HLR_TASK_DESCRIPTIONS_inits)"
    unfolding HLR_TASK_DESCRIPTIONS_def by (rule array_init_exact [OF len])
  have rd: "array_read (map Some HLR_TASK_DESCRIPTIONS_inits) tid =
      Points_to (HLR_TASK_DESCRIPTIONS_inits ! tid)" if "tid < HLR_LAST_TASK_ID" for tid
    using that len by (intro array_read_map_Some) simp
  have "length (map Some HLR_TASK_DESCRIPTIONS_inits) = HLR_LAST_TASK_ID"
    using len by simp
  with ids len tbl rd show ?thesis by blast
qed

theorem HLR_TASK_DESCRIPTIONS_in_bounds_witness:
  "(52 :: nat) < HLR_LAST_TASK_ID \<and>
   (\<exists>tbl. HLR_TASK_DESCRIPTIONS = Some tbl \<and>
      array_read tbl (enum_pos HLRTaskID ''HLR_SHUTDOWN_RESPONSE_TASK_ID'') =
        Points_to ''Shutdown Response'')"
proof -
  have lt: "(52 :: nat) < HLR_LAST_TASK_ID"
    by (simp add: HLR_LAST_TASK_ID_value)
  have pos: "enum_pos HLRTaskID ''HLR_SHUTDOWN_RESPONSE_TASK_ID'' = 52"
    by (simp add: HLRTaskID_def)
  have nth: "HLR_TASK_DESCRIPTIONS_inits ! 52 = ''Shutdown Response''"
    by (simp add: HLR_TASK_DESCRIPTIONS_inits_def)
  from HLR_TASK_DESCRIPTIONS_in_bounds lt pos nth show ?thesis by auto
qed

lemma enum_pos_eqI:
  "n < length es \<Longrightarrow> es ! n = x \<Longrightarrow> x \<notin> set (take n es) \<Longrightarrow> enum_pos es x = n"
proof (induction es arbitrary: n)
  case Nil
  then show ?case by simp
next
  case (Cons e es)
  then show ?case by (cases n) auto
qed

subsection \<open>Message kinds\<close>

lemma length_MessageKind: "length MessageKind = 98"
  by (simp add: MessageKind_def)

lemma LAST_SEND_KIND_value: "LAST_SEND_KIND = 97"
  unfolding LAST_SEND_KIND_def
  by (rule enum_pos_eqI) (simp_all add: MessageKind_def)

lemma structural_kinds:
  "map (enumerator MessageKind) [3, 4, 5, 7, 8, 9, 11, 12, 13, 20] =
     [Some ''SEND_INDEX_SPACE_NODE'', Some ''SEND_INDEX_SPACE_REQUEST'',
      Some ''SEND_INDEX_SPACE_RETURN'', Some ''SEND_INDEX_PARTITION_NODE'',
      Some ''SEND_INDEX_PARTITION_REQUEST'', Some ''SEND_INDEX_PARTITION_RETURN'',
      Some ''SEND_FIELD_SPACE_NODE'', Some ''SEND_FIELD_SPACE_REQUEST'',
      Some ''SEND_FIELD_SPACE_RETURN'', Some ''SEND_LOGICAL_REGION_NODE'']"
  by (simp add: enumerator_def length_MessageKind) (simp add: MessageKind_def)

lemma field_alloc_kind:
  "enumerator MessageKind 15 = Some ''SEND_FIELD_ALLOC_NOTIFICATION''"
  by (simp add: enumerator_def length_MessageKind) (simp add: MessageKind_def)

lemma version_state_kinds:
  "map (enumerator MessageKind) [76, 77, 78, 79] =
     [Some ''SEND_VERSION_STATE_PATH'', Some ''SEND_VERSION_STATE_INIT'',
      Some ''SEND_VERSION_STATE_REQUEST'', Some ''SEND_VERSION_STATE_RESPONSE'']"
  by (simp add: enumerator_def length_MessageKind) (simp add: MessageKind_def)

lemma instance_kinds:
  "map (enumerator MessageKind) [80, 81] =
     [Some ''SEND_INSTANCE_REQUEST'', Some ''SEND_INSTANCE_RESPONSE'']"
  by (simp add: enumerator_def length_MessageKind) (simp add: MessageKind_def)

lemma gc_priority_kind:
  "enumerator MessageKind 82 = Some ''SEND_GC_PRIORITY_UPDATE''"
  by (simp add: enumerator_def length_MessageKind) (simp add: MessageKind_def)

lemma shutdown_kinds:
  "map (enumerator MessageKind) [95, 96] =
     [Some ''SEND_SHUTDOWN_NOTIFICATION'', Some ''SEND_SHUTDOWN_RESPONSE'']"
  by (simp add: enumerator_def length_MessageKind) (simp add: MessageKind_def)

text \<open>
  Claim C9. The enumeration of message kinds is a fixed list of 97 kinds, closed by
  \<^verbatim>\<open>LAST_SEND_KIND\<close>, and it has a kind for each concern listed: announcing,
  requesting and returning a structural node (index space, index partition, field
  space, logical region), the field allocation notification, the version state path,
  init, request and response, the instance request and response, the update of a
  garbage collection priority, and the shutdown notification and response. Each kind
  is given with its value.
\<close>

theorem MessageKind_has_listed_kinds:
  "LAST_SEND_KIND = 97 \<and> length MessageKind = Suc LAST_SEND_KIND \<and>
   enumerator MessageKind LAST_SEND_KIND = Some ''LAST_SEND_KIND'' \<and>
   map (enumerator MessageKind) [3, 4, 5, 7, 8, 9, 11, 12, 13, 20] =
     [Some ''SEND_INDEX_SPACE_NODE'', Some ''SEND_INDEX_SPACE_REQUEST'',
      Some ''SEND_INDEX_SPACE_RETURN'', Some ''SEND_INDEX_PARTITION_NODE'',
      Some ''SEND_INDEX_PARTITION_REQUEST'', Some ''SEND_INDEX_PARTITION_RETURN'',
      Some ''SEND_FIELD_SPACE_NODE'', Some ''SEND_FIELD_SPACE_REQUEST'',
      Some ''SEND_FIELD_SPACE_RETURN'', Some ''SEND_LOGICAL_REGION_NODE''] \<and>
   enumerator MessageKind 15 = Some ''SEND_FIELD_ALLOC_NOTIFICATION'' \<and>
   map (enumerator MessageKind) [76, 77, 78, 79] =
     [Some ''SEND_VERSION_STATE_PATH'', Some ''SEND_VERSION_STATE_INIT'',
      Some ''SEND_VERSION_STATE_REQUEST'', Some ''SEND_VERSION_STATE_RESPONSE''] \<and>
   map (enumerator MessageKind) [80, 81] =
     [Some ''SEND_INSTANCE_REQUEST'', Some ''SEND_INSTANCE_RESPONSE''] \<and>
   enumerator MessageKind 82 = Some ''SEND_GC_PRIORITY_UPDATE'' \<and>
   map (enumerator MessageKind) [95, 96] =
     [Some ''SEND_SHUTDOWN_NOTIFICATION'', Some ''SEND_SHUTDOWN_RESPONSE'']"
proof -
  have last: "enumerator MessageKind LAST_SEND_KIND = Some ''LAST_SEND_KIND''"
    unfolding LAST_SEND_KIND_value
    by (simp add: enumerator_def length_MessageKind) (simp add: MessageKind_def)
  have len: "length MessageKind = Suc LAST_SEND_KIND"
    by (simp add: length_MessageKind LAST_SEND_KIND_value)
  from LAST_SEND_KIND_value len last structural_kinds field_alloc_kind
    version_state_kinds instance_kinds gc_priority_kind shutdown_kinds
  show ?thesis by (intro conjI)
qed

section \<open>Round trips of the conversions and of the wire layout\<close>

lemma unwrap_wrap: "unwrap (wrap t) = t"
  by (simp add: wrap_def unwrap_def static_cast_void_def static_cast_T_def)

lemma wrap_unwrap: "wrap (unwrap t_c) = t_c"
  by (cases t_c) (simp add: wrap_def unwrap_def static_cast_void_def static_cast_T_def)

lemma unwrap_wrap_const: "unwrap_const (wrap_const t) = t"
  by (simp add: wrap_const_def unwrap_const_def const_cast_void_def static_cast_void_def
      static_cast_T_def)

lemma wrap_unwrap_const: "wrap_const (unwrap_const t_c) = t_c"
  by (cases t_c) (simp add: wrap_const_def unwrap_const_def const_cast_void_def
      static_cast_void_def static_cast_T_def)

lemma unwrap_wrap_IndexSpace: "unwrap_IndexSpace (wrap_IndexSpace is) = is"
  by (simp add: wrap_IndexSpace_def unwrap_IndexSpace_def)

lemma wrap_unwrap_IndexSpace: "wrap_IndexSpace (unwrap_IndexSpace is_c) = is_c"
  by (simp add: wrap_IndexSpace_def unwrap_IndexSpace_def)

lemma unwrap_wrap_FieldSpace: "unwrap_FieldSpace (wrap_FieldSpace fs) = fs"
  by (simp add: wrap_FieldSpace_def unwrap_FieldSpace_def)

lemma wrap_unwrap_FieldSpace: "wrap_FieldSpace (unwrap_FieldSpace fs_c) = fs_c"
  by (simp add: wrap_FieldSpace_def unwrap_FieldSpace_def)

lemma unwrap_wrap_LogicalRegion: "unwrap_LogicalRegion (wrap_LogicalRegion r) = r"
  by (simp add: wrap_LogicalRegion_def unwrap_LogicalRegion_def
      unwrap_wrap_IndexSpace unwrap_wrap_FieldSpace)

lemma wrap_unwrap_LogicalRegion: "wrap_LogicalRegion (unwrap_LogicalRegion r_c) = r_c"
  by (simp add: wrap_LogicalRegion_def unwrap_LogicalRegion_def
      wrap_unwrap_IndexSpace wrap_unwrap_FieldSpace)

lemma unwrap_wrap_LogicalPartition: "unwrap_LogicalPartition (wrap_LogicalPartition r) = r"
  by (simp add: wrap_LogicalPartition_def unwrap_LogicalPartition_def unwrap_wrap_FieldSpace)

lemma wrap_unwrap_LogicalPartition:
  "wrap_LogicalPartition (unwrap_LogicalPartition r_c) = r_c"
  by (simp add: wrap_LogicalPartition_def unwrap_LogicalPartition_def wrap_unwrap_FieldSpace)

lemma length_put_word: "length (put_word w) = width_bytes w"
  by (simp add: put_word_def)

lemma width_bytes_const: "width_bytes (w :: 'a::len word) = width_bytes (0 :: 'a word)"
  by (simp add: width_bytes_def)

lemma bit_horner_sum_bytes:
  "bit (horner_sum uint (2 ^ 8) bs) n \<longleftrightarrow>
     n div 8 < length bs \<and> bit (bs ! (n div 8)) (n mod 8)" for bs :: "byte list"
  using bit_horner_sum_uint_exp_iff [of bs n] by simp

lemma word_of_bytes_put_word: "word_of_bytes (put_word w) = (w :: 'a::len word)"
proof (rule bit_word_eqI)
  fix n
  assume n: "n < LENGTH('a)"
  have lt: "n div 8 < width_bytes w"
    using n by (simp add: width_bytes_def)
  have "bit (word_of_bytes (put_word w) :: 'a word) n \<longleftrightarrow>
      bit (horner_sum uint (2 ^ 8) (put_word w)) n"
    using n unfolding word_of_bytes_def by (simp only: bit_word_of_int_iff simp_thms)
  also have "\<dots> \<longleftrightarrow> bit (put_word w ! (n div 8)) (n mod 8)"
    using lt by (simp only: bit_horner_sum_bytes length_put_word simp_thms)
  also have "\<dots> \<longleftrightarrow> bit w (8 * (n div 8) + n mod 8)"
    using lt by (simp add: put_word_def bit_ucast_iff bit_drop_bit_eq)
  finally show "bit (word_of_bytes (put_word w) :: 'a word) n \<longleftrightarrow> bit w n"
    by simp
qed

lemma get_word_put_word: "get_word (put_word w @ rest) = Some (w, rest)"
proof -
  have "length (put_word w) = width_bytes (0 :: 'a word)"
    using length_put_word [of w] width_bytes_const [of w] by simp
  then show ?thesis
    by (simp add: get_word_def Let_def word_of_bytes_put_word)
qed

lemma deserialize_serialize_region:
  "deserialize_region (serialize_region r @ rest) = Some (r, rest)"
  by (simp add: deserialize_region_def serialize_region_def get_word_put_word)

lemma deserialize_serialize_version_state:
  assumes "serialize_version_state v = Some bs"
  shows "deserialize_version_state (bs @ rest) = Some (v, rest)"
proof -
  from assms have len: "length (w_payload v) < 2 ^ 64"
    by (simp add: serialize_version_state_def split: if_splits)
  then have n: "unat (word_of_nat (length (w_payload v)) :: 64 word) = length (w_payload v)"
    by (simp add: unat_of_nat)
  from assms len have bs: "bs = put_word (w_tree_id v) @ put_word (w_index_space v) @
      put_word (w_field_space v) @ put_word (w_version v) @ put_word (w_mask v) @
      put_word (word_of_nat (length (w_payload v)) :: 64 word) @ w_payload v"
    by (simp add: serialize_version_state_def)
  show ?thesis
    unfolding bs deserialize_version_state_def
    by (simp add: get_word_put_word n)
qed

text \<open>
  Claim C6. Unwrapping a wrapped logical region, logical partition, index space, field
  space or opaque handle gives the value back, and so does wrapping an unwrapped one:
  each pair of conversions is a bijection with its partner as inverse. On the wire, a
  field mask, a tree-node identity and a version record are read back as they were
  written, whatever follows them in the buffer.
\<close>

theorem wrap_unwrap_round_trip:
  "unwrap_LogicalRegion (wrap_LogicalRegion r) = r \<and>
   wrap_LogicalRegion (unwrap_LogicalRegion r_c) = r_c \<and>
   unwrap_LogicalPartition (wrap_LogicalPartition p) = p \<and>
   wrap_LogicalPartition (unwrap_LogicalPartition p_c) = p_c \<and>
   unwrap (wrap t) = t \<and> wrap (unwrap t_c) = t_c \<and>
   unwrap_const (wrap_const t) = t \<and> wrap_const (unwrap_const t_c) = t_c \<and>
   bij (wrap :: 'a pointer \<Rightarrow> 'a opaque) \<and>
   bij (wrap_LogicalRegion :: ('t, 'i, 'f) LogicalRegion \<Rightarrow> _) \<and>
   get_word (put_word (fm :: ('n::len) FieldMask) @ rest) = Some (fm, rest) \<and>
   deserialize_region (serialize_region rw @ rest) = Some (rw, rest) \<and>
   (length (w_payload (v :: ('n::len) FieldMask version_state_wire)) < 2 ^ 64 \<longrightarrow>
      (\<exists>bs. serialize_version_state v = Some bs \<and>
            deserialize_version_state (bs @ rest) = Some (v, rest)))"
proof -
  have b1: "bij (wrap :: 'a pointer \<Rightarrow> 'a opaque)"
    by (rule bij_betw_byWitness [where f' = unwrap]) (simp_all add: unwrap_wrap wrap_unwrap)
  have b2: "bij (wrap_LogicalRegion :: ('t, 'i, 'f) LogicalRegion \<Rightarrow> _)"
    by (rule bij_betw_byWitness [where f' = unwrap_LogicalRegion])
      (simp_all add: unwrap_wrap_LogicalRegion wrap_unwrap_LogicalRegion)
  have ser: "\<exists>bs. serialize_version_state v = Some bs \<and>
      deserialize_version_state (bs @ rest) = Some (v, rest)"
    if "length (w_payload v) < 2 ^ 64"
  proof -
    from that obtain bs where "serialize_version_state v = Some bs"
      by (simp add: serialize_version_state_def)
    with deserialize_serialize_version_state [of v bs rest] show ?thesis by simp
  qed
  from b1 b2 ser show ?thesis
    by (simp add: unwrap_wrap_LogicalRegion wrap_unwrap_LogicalRegion
        unwrap_wrap_LogicalPartition wrap_unwrap_LogicalPartition unwrap_wrap wrap_unwrap
        unwrap_wrap_const wrap_unwrap_const get_word_put_word deserialize_serialize_region)
qed

theorem wrap_unwrap_round_trip_witness:
  "unwrap_LogicalRegion (wrap_LogicalRegion
      \<lparr>lr_tree_id = 1 :: 32 word, lr_index_space = \<lparr>is_id = 7 :: 64 word\<rparr>,
       lr_field_space = \<lparr>fs_id = 3 :: 32 word\<rparr>\<rparr>) =
      \<lparr>lr_tree_id = 1, lr_index_space = \<lparr>is_id = 7\<rparr>, lr_field_space = \<lparr>fs_id = 3\<rparr>\<rparr> \<and>
   serialize_region
      \<lparr>lr_tree_id = 1, lr_index_space = \<lparr>is_id = 7\<rparr>, lr_field_space = \<lparr>fs_id = 3\<rparr>\<rparr> =
      [1, 0, 0, 0, 7, 0, 0, 0, 0, 0, 0, 0, 3, 0, 0, 0] \<and>
   length (w_payload \<lparr>w_tree_id = 1, w_index_space = 7, w_field_space = 3, w_version = 4,
      w_mask = 5 :: 16 word, w_payload = [9, 8]\<rparr>) < 2 ^ 64 \<and>
   (\<exists>bs. serialize_version_state \<lparr>w_tree_id = 1, w_index_space = 7, w_field_space = 3,
          w_version = 4, w_mask = 5 :: 16 word, w_payload = [9, 8]\<rparr> = Some bs \<and>
      deserialize_version_state (bs @ [255]) =
        Some (\<lparr>w_tree_id = 1, w_index_space = 7, w_field_space = 3, w_version = 4,
          w_mask = 5 :: 16 word, w_payload = [9, 8]\<rparr>, [255]))"
proof -
  let ?r = "\<lparr>lr_tree_id = 1 :: 32 word, lr_index_space = \<lparr>is_id = 7 :: 64 word\<rparr>,
       lr_field_space = \<lparr>fs_id = 3 :: 32 word\<rparr>\<rparr>"
  let ?v = "\<lparr>w_tree_id = 1, w_index_space = 7, w_field_space = 3, w_version = 4,
      w_mask = 5 :: 16 word, w_payload = [9, 8]\<rparr>"
  have bytes: "serialize_region ?r = [1, 0, 0, 0, 7, 0, 0, 0, 0, 0, 0, 0, 3, 0, 0, 0]"
    by (simp add: serialize_region_def put_word_def width_bytes_def upt_rec)
  have len: "length (w_payload ?v) < 2 ^ 64"
    by simp
  note round_trip = wrap_unwrap_round_trip [of ?r "wrap_LogicalRegion ?r"
      "\<lparr>lp_tree_id = 1 :: 32 word, lp_index_partition = 2 :: 32 word,
        lp_field_space = \<lparr>fs_id = 3 :: 32 word\<rparr>\<rparr>"
      "\<lparr>c_lp_tree_id = 1 :: 32 word, c_lp_index_partition = 2 :: 32 word,
        c_lp_field_space = \<lparr>c_fs_id = 3 :: 32 word\<rparr>\<rparr>"
      "Pointer 4096 :: unit pointer" "Opaque (Void_pointer 4096) :: unit opaque"
      "5 :: 16 word" "[255]" ?r ?v]
  from round_trip have a: "unwrap_LogicalRegion (wrap_LogicalRegion ?r) = ?r"
    by (rule conjunct1)
  from round_trip len have b: "\<exists>bs. serialize_version_state ?v = Some bs \<and>
      deserialize_version_state (bs @ [255]) = Some (?v, [255])"
    by blast
  from a bytes len b show ?thesis by (intro conjI)
qed

section \<open>The open state\<close>

lemma OpenState_UNIV:
  "(UNIV :: OpenState set) =
     {NOT_OPEN, OPEN_READ_ONLY, OPEN_READ_WRITE, OPEN_SINGLE_REDUCE, OPEN_MULTI_REDUCE}"
proof -
  have "s \<in> {NOT_OPEN, OPEN_READ_ONLY, OPEN_READ_WRITE, OPEN_SINGLE_REDUCE, OPEN_MULTI_REDUCE}"
    for s by (cases s) simp_all
  then show ?thesis by blast
qed

lemma first_reader_iff:
  "open_step (NOT_OPEN, r) (Access Read) t \<longleftrightarrow> t = (OPEN_READ_ONLY, r)"
  by (auto elim: open_step.cases intro: open_step.first_reader)

lemma close_iff: "open_step st Close t \<longleftrightarrow> t = (NOT_OPEN, 0)"
  by (cases st) (auto elim: open_step.cases intro: open_step.close)

text \<open>
  Claim C3. The open state of a slice is one of the five values of the enumeration,
  which are distinct and carry the values 0 to 4. From not-open, where nothing is open
  and so no writer is, a reader opens the slice read-only and nothing else can happen
  on a read; a close takes a slice from any state to not-open, and nowhere else.
\<close>

theorem OpenState_values_and_transitions:
  "(s = NOT_OPEN \<or> s = OPEN_READ_ONLY \<or> s = OPEN_READ_WRITE \<or>
    s = OPEN_SINGLE_REDUCE \<or> s = OPEN_MULTI_REDUCE) \<and>
   card (UNIV :: OpenState set) = 5 \<and>
   map OpenState_value
     [NOT_OPEN, OPEN_READ_ONLY, OPEN_READ_WRITE, OPEN_SINGLE_REDUCE, OPEN_MULTI_REDUCE] =
     [0, 1, 2, 3, 4] \<and>
   (open_step (NOT_OPEN, r) (Access Read) t \<longleftrightarrow> t = (OPEN_READ_ONLY, r)) \<and>
   (open_step st Close t' \<longleftrightarrow> t' = (NOT_OPEN, 0))"
proof -
  have five: "s = NOT_OPEN \<or> s = OPEN_READ_ONLY \<or> s = OPEN_READ_WRITE \<or>
      s = OPEN_SINGLE_REDUCE \<or> s = OPEN_MULTI_REDUCE"
    by (cases s) simp_all
  have card: "card (UNIV :: OpenState set) = 5"
    by (simp add: OpenState_UNIV)
  have vals: "map OpenState_value
     [NOT_OPEN, OPEN_READ_ONLY, OPEN_READ_WRITE, OPEN_SINGLE_REDUCE, OPEN_MULTI_REDUCE] =
     [0, 1, 2, 3, 4]"
    by simp
  from five card vals first_reader_iff [of r t] close_iff [of st t'] show ?thesis
    by (intro conjI)
qed

theorem OpenState_values_and_transitions_witness:
  "open_step (NOT_OPEN, 0) (Access Read) (OPEN_READ_ONLY, 0) \<and>
   \<not> open_step (NOT_OPEN, 0) (Access Read) (OPEN_READ_WRITE, 0) \<and>
   open_step (OPEN_READ_WRITE, 0) Close (NOT_OPEN, 0) \<and>
   open_step (OPEN_MULTI_REDUCE, 1) Close (NOT_OPEN, 0)"
  using OpenState_values_and_transitions [of OPEN_READ_ONLY 0 "(OPEN_READ_ONLY, 0)"
      "(OPEN_READ_WRITE, 0)" "(NOT_OPEN, 0)"]
    OpenState_values_and_transitions [of OPEN_READ_ONLY 0 "(OPEN_READ_WRITE, 0)"
      "(OPEN_MULTI_REDUCE, 1)" "(NOT_OPEN, 0)"]
  by simp

end
